theory Spec2Isabelle
  imports Main "HOL-Library.Word" "HOL-Library.Sublist"
begin

section \<open>Pruning of resolved transactions (prune.go)\<close>

text \<open>
  A shallow embedding of the decision heuristic, the option defaults, the collection-name
  filter, the token-to-identifier conversion, the statistics lookup, the two batched removers
  and the orchestrator of \<^verbatim>\<open>prune.go\<close>.

  Go's \<^verbatim>\<open>int\<close> and \<^verbatim>\<open>time.Duration\<close> are 64-bit two's complement integers: they are
  \<open>64 word\<close> here, read with \<open>sint\<close>, so that \<open>+\<close> and \<open>-\<close> wrap as the machine's do.
  Strings are byte sequences (\<open>string\<close>). A Go \<^verbatim>\<open>error\<close> result is an \<open>error option\<close>
  (\<open>None\<close> is \<^verbatim>\<open>nil\<close>); a run-time panic is the constructor \<open>Panic\<close> of \<open>go_result\<close>.
\<close>

type_synonym go_int = "64 word"

datatype 'a go_result = Value 'a | Panic string

subsection \<open>Constants\<close>

definition maxBulkOps :: nat where
  "maxBulkOps = 1000"

subsection \<open>The collection-name filter\<close>

text \<open>\<^verbatim>\<open>strings.HasPrefix(s, prefix)\<close>: \<^verbatim>\<open>len(s) >= len(prefix) && s[:len(prefix)] == prefix\<close>.\<close>

definition HasPrefix :: "string \<Rightarrow> string \<Rightarrow> bool" where
  "HasPrefix s p = (length p \<le> length s \<and> take (length p) s = p)"

text \<open>The closure \<^verbatim>\<open>hasTxnReferences\<close>; the \<^verbatim>\<open>switch\<close> takes the first case that holds.\<close>

definition hasTxnReferences :: "string \<Rightarrow> string \<Rightarrow> bool" where
  "hasTxnReferences txnsName name =
     (if name = txnsName @ ''.stash'' then True
      else if name = txnsName \<or> HasPrefix name (txnsName @ ''.'') then False
      else if name = ''statuseshistory'' then False
      else if HasPrefix name ''system.'' then False
      else True)"

text \<open>The \<^verbatim>\<open>for ... range inNames\<close> loop, appending to \<^verbatim>\<open>outNames\<close>.\<close>

fun txnCollections_loop :: "string \<Rightarrow> string list \<Rightarrow> string list \<Rightarrow> string list" where
  "txnCollections_loop txnsName [] outNames = outNames"
| "txnCollections_loop txnsName (name # rest) outNames =
     txnCollections_loop txnsName rest
       (if hasTxnReferences txnsName name then outNames @ [name] else outNames)"

definition txnCollections :: "string list \<Rightarrow> string \<Rightarrow> string list" where
  "txnCollections inNames txnsName = txnCollections_loop txnsName inNames []"

text \<open>What the specification says the filter keeps.\<close>

definition keeps_name :: "string \<Rightarrow> string \<Rightarrow> bool" where
  "keeps_name txnsName name =
     (name = txnsName @ ''.stash'' \<or>
      (name \<noteq> txnsName \<and> \<not> prefix (txnsName @ ''.'') name \<and>
       name \<noteq> ''statuseshistory'' \<and> \<not> prefix ''system.'' name))"

subsection \<open>Single-precision numbers\<close>

text \<open>
  \<^verbatim>\<open>shouldPrune\<close> compares in \<^verbatim>\<open>float32\<close>. A \<^verbatim>\<open>float32\<close> is not-a-number, an infinity
  (\<open>True\<close> for the negative one) or a finite number \<open>Fin m e\<close>, standing for \<open>m * 2 ^ e\<close>.
  The two zeros are not told apart: the program only multiplies and compares, and neither
  operation sees the sign of a zero.
\<close>

datatype f32 = NaN | Infty bool | Fin int int

text \<open>The number of binary digits of a positive integer (0 for the others).\<close>

function bitlen :: "int \<Rightarrow> int" where
  "bitlen n = (if n \<le> 0 then 0 else 1 + bitlen (n div 2))"
  by pat_completeness auto
termination
  by (relation "measure nat") auto

declare bitlen.simps [simp del]

text \<open>
  Rounding of the exact number \<open>m * 2 ^ e\<close> to the nearest \<^verbatim>\<open>float32\<close>, ties to the even
  significand (IEEE 754 binary32: 24 significant bits, least exponent of the last place
  \<open>-149\<close>, greatest \<open>104\<close>; what rounds to \<open>2 ^ 128\<close> or beyond is an infinity).
\<close>

definition f32_round :: "int \<Rightarrow> int \<Rightarrow> f32" where
  "f32_round m e =
     (if m = 0 then Fin 0 0
      else
        let a = \<bar>m\<bar>;
            k = bitlen a;
            q = max (k + e - 24) (- 149)
        in if q \<le> e then (if 128 < k + e then Infty (m < 0) else Fin m e)
           else
             let s = nat (q - e);
                 M0 = a div 2 ^ s;
                 r = a mod 2 ^ s;
                 half = 2 ^ (s - 1);
                 M = (if half < r \<or> (r = half \<and> odd M0) then M0 + 1 else M0)
             in if 104 < q \<or> (q = 104 \<and> 2 ^ 24 \<le> M) then Infty (m < 0)
                else Fin (sgn m * M) q)"

text \<open>The conversion \<^verbatim>\<open>float32(n)\<close> of an \<^verbatim>\<open>int\<close>.\<close>

definition f32_of_int :: "go_int \<Rightarrow> f32" where
  "f32_of_int n = f32_round (sint n) 0"

text \<open>The product \<^verbatim>\<open>x * y\<close> of two \<^verbatim>\<open>float32\<close>, rounded once.\<close>

fun f32_mul :: "f32 \<Rightarrow> f32 \<Rightarrow> f32" where
  "f32_mul NaN _ = NaN"
| "f32_mul _ NaN = NaN"
| "f32_mul (Infty s) (Infty t) = Infty (s \<noteq> t)"
| "f32_mul (Infty s) (Fin m e) = (if m = 0 then NaN else Infty (s \<noteq> (m < 0)))"
| "f32_mul (Fin m e) (Infty s) = (if m = 0 then NaN else Infty (s \<noteq> (m < 0)))"
| "f32_mul (Fin m1 e1) (Fin m2 e2) = f32_round (m1 * m2) (e1 + e2)"

text \<open>The comparison \<^verbatim>\<open>x >= y\<close>; it is false when either side is not a number.\<close>

fun f32_ge :: "f32 \<Rightarrow> f32 \<Rightarrow> bool" where
  "f32_ge NaN _ = False"
| "f32_ge _ NaN = False"
| "f32_ge (Infty s) (Infty t) = (t \<or> \<not> s)"
| "f32_ge (Infty s) (Fin m e) = (\<not> s)"
| "f32_ge (Fin m e) (Infty t) = t"
| "f32_ge (Fin m1 e1) (Fin m2 e2) =
     (let d = min e1 e2 in m2 * 2 ^ nat (e2 - d) \<le> m1 * 2 ^ nat (e1 - d))"

text \<open>The test \<^verbatim>\<open>x == 0\<close>.\<close>

fun f32_is_zero :: "f32 \<Rightarrow> bool" where
  "f32_is_zero (Fin m e) = (m = 0)"
| "f32_is_zero _ = False"

subsection \<open>Options and their defaults\<close>

definition defaultPruneFactor :: f32 where
  "defaultPruneFactor = Fin 1 1"

definition defaultMinNewTransactions :: go_int where
  "defaultMinNewTransactions = 100"

definition defaultMaxNewTransactions :: go_int where
  "defaultMaxNewTransactions = 100000"

definition defaultSmallBatchTransactionCount :: go_int where
  "defaultSmallBatchTransactionCount = 1000"

text \<open>\<^verbatim>\<open>10 * time.Millisecond\<close>, in nanoseconds.\<close>

definition defaultBatchTransactionSleepTime :: go_int where
  "defaultBatchTransactionSleepTime = 10000000"

text \<open>
  Modelled from the spec: the declaration of \<^verbatim>\<open>PruneOptions\<close> is not in \<^verbatim>\<open>prune.go\<close>.
  The record has the fields that \<^verbatim>\<open>prune.go\<close> reads and writes, the tunables of the
  specification's run configuration; \<^verbatim>\<open>PruneFactor\<close> is a \<^verbatim>\<open>float32\<close>, since
  \<^verbatim>\<open>shouldPrune\<close> multiplies it with a \<^verbatim>\<open>float32\<close>. Times are counted in nanoseconds.
\<close>

record PruneOptions =
  PruneFactor :: f32
  MinNewTransactions :: go_int
  MaxNewTransactions :: go_int
  MaxTime :: go_int
  MaxBatchTransactions :: go_int
  MaxBatches :: go_int
  SmallBatchTransactionCount :: go_int
  BatchTransactionSleepTime :: go_int

text \<open>
  The four constants that \<^verbatim>\<open>prune.go\<close> uses and another file of the package declares.
  Their values are parameters of the model.
\<close>

record pruneConsts =
  pruneTxnBatchSize :: go_int
  pruneMinTxnBatchSize :: go_int
  pruneMaxTxnBatchSize :: go_int
  maxBatchSleepTime :: go_int

text \<open>\<^verbatim>\<open>validatePruneOptions\<close> updates the options in place; the model returns them.\<close>

definition validatePruneOptions :: "pruneConsts \<Rightarrow> PruneOptions \<Rightarrow> PruneOptions" where
  "validatePruneOptions k pruneOptions =
     (let p1 = (if f32_is_zero (PruneFactor pruneOptions)
                then pruneOptions\<lparr>PruneFactor := defaultPruneFactor\<rparr> else pruneOptions);
          p2 = (if MinNewTransactions p1 = 0
                then p1\<lparr>MinNewTransactions := defaultMinNewTransactions\<rparr> else p1);
          p3 = (if MaxNewTransactions p2 = 0
                then p2\<lparr>MaxNewTransactions := defaultMaxNewTransactions\<rparr> else p2);
          p4 = (if sint (MaxBatches p3) \<le> 0 then p3\<lparr>MaxBatches := 1\<rparr> else p3);
          p5 = (if sint (BatchTransactionSleepTime p4) < 0
                then p4\<lparr>BatchTransactionSleepTime := defaultBatchTransactionSleepTime\<rparr>
                else p4)
      in if sint (SmallBatchTransactionCount p5) < sint (pruneMinTxnBatchSize k)
         then p5\<lparr>SmallBatchTransactionCount := defaultSmallBatchTransactionCount\<rparr>
         else p5)"

subsection \<open>The decision\<close>

definition shouldPrune :: "go_int \<Rightarrow> go_int \<Rightarrow> PruneOptions \<Rightarrow> bool \<times> string" where
  "shouldPrune oldCount newCount pruneOptions =
     (if sint oldCount < 0 then (True, ''no pruning run found'')
      else
        let difference = newCount - oldCount
        in if sint difference < sint (MinNewTransactions pruneOptions)
           then (False, ''not enough new transactions'')
           else if sint (MaxNewTransactions pruneOptions) < sint difference
           then (True, ''too many new transactions'')
           else
             let factored = f32_mul (f32_of_int oldCount) (PruneFactor pruneOptions)
             in if f32_ge (f32_of_int newCount) factored
                then (True, ''transactions have grown significantly'')
                else (False, ''transactions have not grown significantly''))"

text \<open>
  The decision as the specification words it, with \<open>newCount \<ge> oldCount * PruneFactor\<close>
  read in exact arithmetic. \<open>f32_scaled_le m e a b\<close> is \<open>a * (m * 2 ^ e) \<le> b\<close> over the
  integers.
\<close>

definition f32_scaled_le :: "int \<Rightarrow> int \<Rightarrow> int \<Rightarrow> int \<Rightarrow> bool" where
  "f32_scaled_le m e a b =
     (if 0 \<le> e then a * m * 2 ^ nat e \<le> b else a * m \<le> b * 2 ^ nat (- e))"

fun exact_grown :: "go_int \<Rightarrow> go_int \<Rightarrow> f32 \<Rightarrow> bool" where
  "exact_grown oldCount newCount (Fin m e) = f32_scaled_le m e (sint oldCount) (sint newCount)"
| "exact_grown oldCount newCount (Infty s) =
     (if sint oldCount = 0 then False else (s \<noteq> (sint oldCount < 0)))"
| "exact_grown oldCount newCount NaN = False"

definition shouldPrune_exact :: "go_int \<Rightarrow> go_int \<Rightarrow> PruneOptions \<Rightarrow> bool \<times> string" where
  "shouldPrune_exact oldCount newCount pruneOptions =
     (if sint oldCount < 0 then (True, ''no pruning run found'')
      else if sint (newCount - oldCount) < sint (MinNewTransactions pruneOptions)
      then (False, ''not enough new transactions'')
      else if sint (MaxNewTransactions pruneOptions) < sint (newCount - oldCount)
      then (True, ''too many new transactions'')
      else if exact_grown oldCount newCount (PruneFactor pruneOptions)
      then (True, ''transactions have grown significantly'')
      else (False, ''transactions have not grown significantly''))"

subsection \<open>Errors and documents\<close>

text \<open>
  Go errors: the driver's sentinel \<^verbatim>\<open>mgo.ErrNotFound\<close>, any other error of the driver,
  \<^verbatim>\<open>errors.New\<close>, \<^verbatim>\<open>fmt.Errorf\<close> and \<^verbatim>\<open>errors.Errorf\<close> with their format and arguments,
  and \<^verbatim>\<open>errors.Trace\<close> around an error.
\<close>

datatype error =
    ErrNotFound
  | DriverError string
  | New string
  | Errorf string "error_arg list"
  | Traced error
and error_arg = ArgInt go_int | ArgErr error

text \<open>\<^verbatim>\<open>errors.Trace(err)\<close> is \<^verbatim>\<open>nil\<close> for \<^verbatim>\<open>nil\<close>.\<close>

fun Trace :: "error option \<Rightarrow> error option" where
  "Trace None = None"
| "Trace (Some e) = Some (Traced e)"

text \<open>A BSON value, as far as the pointer document needs it; \<open>BNil\<close> is \<^verbatim>\<open>nil\<close>.\<close>

datatype bson = BNil | BString string | BObjectId string | BInt go_int

record pruneStats =
  Id :: string
  Started :: go_int
  Completed :: go_int
  TxnsBefore :: go_int
  TxnsAfter :: go_int
  StashDocsBefore :: go_int
  StashDocsAfter :: go_int

text \<open>
  The statistics collection, as \<^verbatim>\<open>getPruneLastTxnsCount\<close> reads it: what
  \<^verbatim>\<open>FindId(id).One(&doc)\<close> answers for a \<^verbatim>\<open>bson.M\<close> and for a \<^verbatim>\<open>pruneStats\<close> target,
  the error on the left. The driver is not part of the program: its answers are parameters.
\<close>

record statsCollection =
  FindId_One_M :: "bson \<Rightarrow> error + (string \<rightharpoonup> bson)"
  FindId_One_pruneStats :: "bson \<Rightarrow> error + pruneStats"

definition getPruneLastTxnsCount :: "statsCollection \<Rightarrow> go_int \<times> error option" where
  "getPruneLastTxnsCount txnsPrune =
     (case FindId_One_M txnsPrune (BString ''last'') of
        Inl err \<Rightarrow>
          if err = ErrNotFound then (- 1, None)
          else (- 1, Some (Errorf ''failed to load pruning stats pointer: %v'' [ArgErr err]))
      | Inr ptrDoc \<Rightarrow>
          (case FindId_One_pruneStats txnsPrune
                  (case ptrDoc ''id'' of None \<Rightarrow> BNil | Some v \<Rightarrow> v) of
             Inl err \<Rightarrow>
               if err = ErrNotFound then (- 1, None)
               else (- 1, Some (Errorf ''failed to load pruning stats: %v'' [ArgErr err]))
           | Inr doc \<Rightarrow> (TxnsAfter doc, None)))"

subsection \<open>Transaction tokens\<close>

text \<open>
  An object identifier is a string of 12 raw bytes. \<^verbatim>\<open>bson.ObjectIdHex(s)\<close>, of the driver's
  \<^verbatim>\<open>bson\<close> package, decodes \<open>s\<close> with \<^verbatim>\<open>hex.DecodeString\<close> and panics unless that
  succeeds and yields 12 bytes. \<^verbatim>\<open>hex.DecodeString\<close> reads two hexadecimal digits, of
  either case, for each byte, and fails on a string of odd length and on any other byte.
\<close>

type_synonym ObjectId = "8 word list"

definition fromHexChar :: "char \<Rightarrow> 8 word option" where
  "fromHexChar c =
     map_of
       [(CHR ''0'', 0), (CHR ''1'', 1), (CHR ''2'', 2), (CHR ''3'', 3), (CHR ''4'', 4),
        (CHR ''5'', 5), (CHR ''6'', 6), (CHR ''7'', 7), (CHR ''8'', 8), (CHR ''9'', 9),
        (CHR ''a'', 10), (CHR ''b'', 11), (CHR ''c'', 12), (CHR ''d'', 13), (CHR ''e'', 14),
        (CHR ''f'', 15),
        (CHR ''A'', 10), (CHR ''B'', 11), (CHR ''C'', 12), (CHR ''D'', 13), (CHR ''E'', 14),
        (CHR ''F'', 15)] c"

fun DecodeString :: "string \<Rightarrow> 8 word list option" where
  "DecodeString [] = Some []"
| "DecodeString [c] = None"
| "DecodeString (a # b # rest) =
     (case fromHexChar a of
        None \<Rightarrow> None
      | Some x \<Rightarrow>
          (case fromHexChar b of
             None \<Rightarrow> None
           | Some y \<Rightarrow>
               (case DecodeString rest of
                  None \<Rightarrow> None
                | Some d \<Rightarrow> Some ((16 * x + y) # d))))"

definition ObjectIdHex :: "string \<Rightarrow> ObjectId go_result" where
  "ObjectIdHex s =
     (case DecodeString s of
        None \<Rightarrow> Panic ''invalid input to ObjectIdHex''
      | Some d \<Rightarrow> if length d \<noteq> 12 then Panic ''invalid input to ObjectIdHex'' else Value d)"

text \<open>\<^verbatim>\<open>token[:24]\<close> panics when the token has fewer than 24 bytes.\<close>

definition txnTokenToId :: "string \<Rightarrow> ObjectId go_result" where
  "txnTokenToId token =
     (if length token < 24 then Panic ''slice bounds out of range''
      else ObjectIdHex (take 24 token))"

text \<open>A string of hexadecimal digits.\<close>

definition isHexDigit :: "char \<Rightarrow> bool" where
  "isHexDigit c = (c \<in> set ''0123456789abcdefABCDEF'')"

definition hex_digits :: "string \<Rightarrow> bool" where
  "hex_digits s = list_all isHexDigit s"

subsection \<open>The orchestrator\<close>

text \<open>\<^verbatim>\<open>Txns\<close> is a pointer: \<open>None\<close> is \<^verbatim>\<open>nil\<close>.\<close>

record 'c CleanAndPruneArgs =
  Txns :: "'c option"
  TxnsCount :: go_int
  ArgsMaxTime :: go_int
  MaxTransactionsToProcess :: go_int
  Multithreaded :: bool
  TxnBatchSize :: go_int
  TxnBatchSleepTime :: go_int

record CleanupStats =
  CollectionsInspected :: go_int
  DocsInspected :: go_int
  DocsCleaned :: go_int
  StashDocumentsRemoved :: go_int
  TransactionsRemoved :: go_int
  ShouldRetry :: bool

text \<open>The zero value of \<^verbatim>\<open>var stats CleanupStats\<close>.\<close>

definition zeroCleanupStats :: CleanupStats where
  "zeroCleanupStats =
     \<lparr>CollectionsInspected = 0, DocsInspected = 0, DocsCleaned = 0,
      StashDocumentsRemoved = 0, TransactionsRemoved = 0, ShouldRetry = False\<rparr>"

text \<open>
  \<^verbatim>\<open>validate\<close> has a pointer receiver: it returns the arguments, with the batch size it
  may have filled in, and the error.
\<close>

definition validate ::
  "pruneConsts \<Rightarrow> 'c CleanAndPruneArgs \<Rightarrow> 'c CleanAndPruneArgs \<times> error option" where
  "validate k args =
     (if Txns args = None then (args, Some (New ''nil Txns not valid''))
      else if sint (TxnBatchSleepTime args) < 0 \<or>
              sint (maxBatchSleepTime k) < sint (TxnBatchSleepTime args)
      then (args, Some (Errorf ''TxnBatchSleepTime (%s) must be between 0s and %s''
                          [ArgInt (TxnBatchSleepTime args), ArgInt (maxBatchSleepTime k)]))
      else
        let args1 = (if TxnBatchSize args = 0
                     then args\<lparr>TxnBatchSize := pruneTxnBatchSize k\<rparr> else args)
        in if sint (TxnBatchSize args1) < sint (pruneMinTxnBatchSize k)
           then (args1, Some (Errorf ''TxnBatchSize %d too small, must be between %d and %d''
                                [ArgInt (TxnBatchSize args1), ArgInt (pruneMinTxnBatchSize k),
                                 ArgInt (pruneMaxTxnBatchSize k)]))
           else if sint (pruneMaxTxnBatchSize k) < sint (TxnBatchSize args1)
           then (args1, Some (Errorf ''TxnBatchSize %d too big, must be between %d and %d''
                                [ArgInt (TxnBatchSize args1), ArgInt (pruneMinTxnBatchSize k),
                                 ArgInt (pruneMaxTxnBatchSize k)]))
           else (args1, None))"

text \<open>
  Modelled from the spec: \<^verbatim>\<open>PrunerStats\<close>, \<^verbatim>\<open>IncrementalPruneArgs\<close>, the incremental
  pruner and \<^verbatim>\<open>CombineStats\<close> are declared in another file of the package. The two records
  have the fields that \<^verbatim>\<open>CleanAndPrune\<close> reads and writes (the progress channel apart);
  a sweep (\<^verbatim>\<open>NewIncrementalPruner(...).Prune(args.Txns)\<close>) and \<^verbatim>\<open>CombineStats\<close> are
  parameters of \<open>CleanAndPrune\<close>.
\<close>

record PrunerStats =
  TxnsRemoved :: go_int
  DocQueuesCleaned :: go_int
  StashDocsRemoved :: go_int
  CollectionQueries :: go_int
  DocCacheMisses :: go_int
  DocCacheHits :: go_int

definition zeroPrunerStats :: PrunerStats where
  "zeroPrunerStats =
     \<lparr>TxnsRemoved = 0, DocQueuesCleaned = 0, StashDocsRemoved = 0,
      CollectionQueries = 0, DocCacheMisses = 0, DocCacheHits = 0\<rparr>"

record IncrementalPruneArgs =
  IncMaxTime :: go_int
  ReverseOrder :: bool
  IncTxnBatchSize :: go_int
  IncTxnBatchSleepTime :: go_int

text \<open>What \<open>CleanAndPrune\<close> sets going, in the order it does.\<close>

datatype event = StartReporting | Sweep IncrementalPruneArgs

definition sweepArgs :: "'c CleanAndPruneArgs \<Rightarrow> bool \<Rightarrow> IncrementalPruneArgs" where
  "sweepArgs args reversed =
     \<lparr>IncMaxTime = ArgsMaxTime args, ReverseOrder = reversed,
      IncTxnBatchSize = TxnBatchSize args, IncTxnBatchSleepTime = TxnBatchSleepTime args\<rparr>"

text \<open>
  The closure \<^verbatim>\<open>prune(reversed)\<close>: one sweep, then, under the mutex, the merge of its
  statistics and the retention of the first error.
\<close>

definition prune_closure ::
  "(IncrementalPruneArgs \<Rightarrow> 'c option \<Rightarrow> PrunerStats \<times> error option) \<Rightarrow>
   (PrunerStats \<Rightarrow> PrunerStats \<Rightarrow> PrunerStats) \<Rightarrow> 'c CleanAndPruneArgs \<Rightarrow>
   PrunerStats \<times> error option \<Rightarrow> bool \<Rightarrow> PrunerStats \<times> error option" where
  "prune_closure Prune CombineStats args acc reversed =
     (let (thisPstats, err) = Prune (sweepArgs args reversed) (Txns args)
      in (CombineStats (fst acc) thisPstats,
          if snd acc = None then Trace err else snd acc))"

text \<open>
  With \<^verbatim>\<open>Multithreaded\<close> the reverse sweep runs on its own goroutine, and either sweep may
  be the first to take the mutex: \<open>reverseFirst\<close> says which.
\<close>

definition CleanAndPrune ::
  "pruneConsts \<Rightarrow> (IncrementalPruneArgs \<Rightarrow> 'c option \<Rightarrow> PrunerStats \<times> error option) \<Rightarrow>
   (PrunerStats \<Rightarrow> PrunerStats \<Rightarrow> PrunerStats) \<Rightarrow> bool \<Rightarrow> 'c CleanAndPruneArgs \<Rightarrow>
   (CleanupStats \<times> error option) \<times> event list" where
  "CleanAndPrune k Prune CombineStats reverseFirst args0 =
     (let stats = zeroCleanupStats
      in case validate k args0 of
           (args, Some err) \<Rightarrow> ((stats, Some err), [])
         | (args, None) \<Rightarrow>
             let started = StartReporting #
                   (if Multithreaded args then [Sweep (sweepArgs args True)] else []) @
                   [Sweep (sweepArgs args False)];
                 finished = (if Multithreaded args
                             then (if reverseFirst then [True, False] else [False, True])
                             else [False]);
                 (pstats, anyErr) =
                   foldl (prune_closure Prune CombineStats args) (zeroPrunerStats, None) finished
             in if anyErr \<noteq> None then ((stats, Trace anyErr), started)
                else ((stats\<lparr>TransactionsRemoved := TxnsRemoved pstats,
                              DocsCleaned := DocQueuesCleaned pstats,
                              StashDocumentsRemoved := StashDocsRemoved pstats,
                              DocsInspected := DocCacheMisses pstats + DocCacheHits pstats,
                              CollectionsInspected := CollectionQueries pstats\<rparr>, None),
                      started))"

subsection \<open>The removers\<close>

text \<open>
  The driver's answers, \<^verbatim>\<open>*mgo.ChangeInfo\<close> and \<^verbatim>\<open>*mgo.BulkResult\<close>, are pointers
  (\<open>None\<close> is \<^verbatim>\<open>nil\<close>); the records have the one field each remover reads. A remover's
  collection is the list of the delete requests it has been sent, oldest first, each request
  the list of identifiers it covers. The driver's answer to a request, which may depend on
  the requests before it, is a parameter.
\<close>

record ChangeInfo =
  Removed :: go_int

record BulkResult =
  Matched :: go_int

type_synonym ('id, 'res) driver = "'id list list \<Rightarrow> 'id list \<Rightarrow> 'res option \<times> error option"

record 'id batchRemover =
  coll :: "'id list list"
  queue :: "'id list"
  removed :: go_int

definition newBatchRemover :: "'id list list \<Rightarrow> 'id batchRemover" where
  "newBatchRemover c = \<lparr>coll = c, queue = [], removed = 0\<rparr>"

definition batchRemover_Flush ::
  "('id, ChangeInfo) driver \<Rightarrow> 'id batchRemover \<Rightarrow> ('id batchRemover \<times> error option) go_result"
where
  "batchRemover_Flush RemoveAll r =
     (if length (queue r) < 1 then Value (r, None)
      else
        let (result, err) = RemoveAll (coll r) (queue r);
            r1 = r\<lparr>coll := coll r @ [queue r]\<rparr>
        in if err = None \<or> err = Some ErrNotFound
           then (case result of
                   None \<Rightarrow> Panic ''nil pointer dereference''
                 | Some info \<Rightarrow>
                     Value (r1\<lparr>removed := removed r1 + Removed info, queue := []\<rparr>, None))
           else Value (r1, err))"

definition batchRemover_Remove ::
  "('id, ChangeInfo) driver \<Rightarrow> 'id batchRemover \<Rightarrow> 'id \<Rightarrow>
   ('id batchRemover \<times> error option) go_result" where
  "batchRemover_Remove RemoveAll r ident =
     (let r1 = r\<lparr>queue := queue r @ [ident]\<rparr>
      in if maxBulkOps \<le> length (queue r1) then batchRemover_Flush RemoveAll r1
         else Value (r1, None))"

text \<open>
  The bulk remover: \<open>chunk\<close> holds the identifiers of the delete operations queued in the
  \<^verbatim>\<open>*mgo.Bulk\<close>, \<open>chunkSize\<close> is the counter the program keeps beside it.
\<close>

record 'id bulkRemover =
  bulk_coll :: "'id list list"
  chunk :: "'id list"
  chunkSize :: go_int
  bulk_removed :: go_int

definition newChunk :: "'id bulkRemover \<Rightarrow> 'id bulkRemover" where
  "newChunk r = r\<lparr>chunk := [], chunkSize := 0\<rparr>"

definition newBulkRemover :: "'id list list \<Rightarrow> 'id bulkRemover" where
  "newBulkRemover c = newChunk \<lparr>bulk_coll = c, chunk = [], chunkSize = 0, bulk_removed = 0\<rparr>"

definition bulkRemover_Flush ::
  "('id, BulkResult) driver \<Rightarrow> 'id bulkRemover \<Rightarrow> ('id bulkRemover \<times> error option) go_result"
where
  "bulkRemover_Flush Run r =
     (if sint (chunkSize r) < 1 then Value (r, None)
      else
        let (result, err) = Run (bulk_coll r) (chunk r);
            r1 = r\<lparr>bulk_coll := bulk_coll r @ [chunk r]\<rparr>
        in if err = None \<or> err = Some ErrNotFound
           then
             let r2 = (case result of
                         None \<Rightarrow> r1
                       | Some res \<Rightarrow> r1\<lparr>bulk_removed := bulk_removed r1 + Matched res\<rparr>)
             in Value (newChunk r2, None)
           else Value (r1, err))"

definition bulkRemover_Remove ::
  "('id, BulkResult) driver \<Rightarrow> 'id bulkRemover \<Rightarrow> 'id \<Rightarrow>
   ('id bulkRemover \<times> error option) go_result" where
  "bulkRemover_Remove Run r ident =
     (let r1 = r\<lparr>chunk := chunk r @ [ident], chunkSize := chunkSize r + 1\<rparr>
      in if 1000 \<le> sint (chunkSize r1) then bulkRemover_Flush Run r1
         else Value (r1, None))"

text \<open>
  A sequence of \<^verbatim>\<open>Remove\<close> calls each of which returns \<^verbatim>\<open>nil\<close>; \<open>None\<close> when one of them
  returns an error or panics.
\<close>

fun batchRemover_Removes ::
  "('id, ChangeInfo) driver \<Rightarrow> 'id batchRemover \<Rightarrow> 'id list \<Rightarrow> 'id batchRemover option" where
  "batchRemover_Removes RemoveAll r [] = Some r"
| "batchRemover_Removes RemoveAll r (ident # rest) =
     (case batchRemover_Remove RemoveAll r ident of
        Value (r', None) \<Rightarrow> batchRemover_Removes RemoveAll r' rest
      | _ \<Rightarrow> None)"

fun bulkRemover_Removes ::
  "('id, BulkResult) driver \<Rightarrow> 'id bulkRemover \<Rightarrow> 'id list \<Rightarrow> 'id bulkRemover option" where
  "bulkRemover_Removes Run r [] = Some r"
| "bulkRemover_Removes Run r (ident # rest) =
     (case bulkRemover_Remove Run r ident of
        Value (r', None) \<Rightarrow> bulkRemover_Removes Run r' rest
      | _ \<Rightarrow> None)"

text \<open>The invariants that a sequence of successful \<^verbatim>\<open>Remove\<close> calls keeps.\<close>

definition batch_inv :: "'id batchRemover \<Rightarrow> bool" where
  "batch_inv r =
     (length (queue r) < maxBulkOps \<and> list_all (\<lambda>q. length q \<le> maxBulkOps) (coll r))"

definition bulk_inv :: "'id bulkRemover \<Rightarrow> bool" where
  "bulk_inv b =
     (sint (chunkSize b) = int (length (chunk b)) \<and> length (chunk b) < 1000 \<and>
      list_all (\<lambda>q. length q \<le> 1000) (bulk_coll b))"

subsection \<open>The specification's words\<close>

text \<open>The options of the specification's examples: the defaults.\<close>

definition exampleOptions :: PruneOptions where
  "exampleOptions =
     \<lparr>PruneFactor = Fin 1 1, MinNewTransactions = 100, MaxNewTransactions = 100000,
      MaxTime = 0, MaxBatchTransactions = 0, MaxBatches = 1,
      SmallBatchTransactionCount = 1000, BatchTransactionSleepTime = 10000000\<rparr>"

text \<open>Values for the four constants, for the examples.\<close>

definition exampleConsts :: pruneConsts where
  "exampleConsts =
     \<lparr>pruneTxnBatchSize = 1000, pruneMinTxnBatchSize = 10, pruneMaxTxnBatchSize = 100000,
      maxBatchSleepTime = 1000000000\<rparr>"

text \<open>
  The arguments that the specification calls a configuration error: no collection, a sleep
  time outside \<open>[0, maxBatchSleepTime]\<close>, or a batch size (the default when it is zero)
  outside \<open>[pruneMinTxnBatchSize, pruneMaxTxnBatchSize]\<close>.
\<close>

definition effectiveBatchSize :: "pruneConsts \<Rightarrow> 'c CleanAndPruneArgs \<Rightarrow> go_int" where
  "effectiveBatchSize k args =
     (if TxnBatchSize args = 0 then pruneTxnBatchSize k else TxnBatchSize args)"

definition invalidArgs :: "pruneConsts \<Rightarrow> 'c CleanAndPruneArgs \<Rightarrow> bool" where
  "invalidArgs k args =
     (Txns args = None \<or>
      sint (TxnBatchSleepTime args) < 0 \<or>
      sint (maxBatchSleepTime k) < sint (TxnBatchSleepTime args) \<or>
      sint (effectiveBatchSize k args) < sint (pruneMinTxnBatchSize k) \<or>
      sint (pruneMaxTxnBatchSize k) < sint (effectiveBatchSize k args))"

section \<open>Properties\<close>

subsection \<open>The collection-name filter\<close>

lemma txnCollections_loop_filter:
  "txnCollections_loop t ns out = out @ filter (hasTxnReferences t) ns"
  by (induction ns arbitrary: out) simp_all

lemma HasPrefix_prefix: "HasPrefix s p \<longleftrightarrow> prefix p s"
proof
  assume "HasPrefix s p"
  then have "take (length p) s = p" by (simp add: HasPrefix_def)
  then show "prefix p s" by (metis take_is_prefix)
next
  assume "prefix p s"
  then obtain zs where "s = p @ zs" by (auto simp: prefix_def)
  then show "HasPrefix s p" by (simp add: HasPrefix_def)
qed

lemma hasTxnReferences_keeps: "hasTxnReferences t n = keeps_name t n"
  by (simp add: hasTxnReferences_def keeps_name_def HasPrefix_prefix)

text \<open>
  Claim C4. For every list of collection names, \<open>txnCollections\<close> keeps, in their order,
  exactly the names that are the stash collection (base name followed by \<^verbatim>\<open>.stash\<close>) or
  that are none of: the base name itself, a name starting with the base name and a dot,
  \<^verbatim>\<open>statuseshistory\<close>, a name starting with \<^verbatim>\<open>system.\<close>. For the base name \<^verbatim>\<open>txns\<close>
  and the six names of the specification the result is \<^verbatim>\<open>txns.stash\<close>, \<^verbatim>\<open>widgets\<close>.
\<close>

theorem txnCollections_keeps:
  "txnCollections inNames txnsName = filter (keeps_name txnsName) inNames \<and>
   txnCollections [''txns'', ''txns.stash'', ''txns.prune'', ''statuseshistory'',
                   ''system.indexes'', ''widgets''] ''txns'' = [''txns.stash'', ''widgets'']"
proof
  have eq: "hasTxnReferences txnsName = keeps_name txnsName"
    by (rule ext) (rule hasTxnReferences_keeps)
  show "txnCollections inNames txnsName = filter (keeps_name txnsName) inNames"
    by (simp add: txnCollections_def txnCollections_loop_filter eq)
  show "txnCollections [''txns'', ''txns.stash'', ''txns.prune'', ''statuseshistory'',
                   ''system.indexes'', ''widgets''] ''txns'' = [''txns.stash'', ''widgets'']"
    by (simp add: txnCollections_def hasTxnReferences_def HasPrefix_def)
qed

theorem txnCollections_keeps_witness:
  "txnCollections [''txns.stash'', ''txns.x'', ''system.js'', ''units''] ''txns''
     = [''txns.stash'', ''units'']"
  using txnCollections_keeps [of "[''txns.stash'', ''txns.x'', ''system.js'', ''units'']" "''txns''"]
  by (simp add: keeps_name_def)

subsection \<open>Option defaults\<close>

lemma validatePruneOptions_fields:
  "validatePruneOptions k p =
     \<lparr>PruneFactor = (if f32_is_zero (PruneFactor p) then Fin 1 1 else PruneFactor p),
      MinNewTransactions = (if MinNewTransactions p = 0 then 100 else MinNewTransactions p),
      MaxNewTransactions = (if MaxNewTransactions p = 0 then 100000 else MaxNewTransactions p),
      MaxTime = MaxTime p,
      MaxBatchTransactions = MaxBatchTransactions p,
      MaxBatches = (if sint (MaxBatches p) \<le> 0 then 1 else MaxBatches p),
      SmallBatchTransactionCount =
        (if sint (SmallBatchTransactionCount p) < sint (pruneMinTxnBatchSize k) then 1000
         else SmallBatchTransactionCount p),
      BatchTransactionSleepTime =
        (if sint (BatchTransactionSleepTime p) < 0 then 10000000
         else BatchTransactionSleepTime p)\<rparr>"
  by (cases p) (simp add: validatePruneOptions_def Let_def defaultPruneFactor_def
      defaultMinNewTransactions_def defaultMaxNewTransactions_def
      defaultSmallBatchTransactionCount_def defaultBatchTransactionSleepTime_def)

text \<open>
  Claim C6. \<open>validatePruneOptions\<close> is idempotent: applied to its own result it returns
  that result, for every options value (and whatever the least batch size is).
\<close>

theorem validatePruneOptions_idempotent:
  "validatePruneOptions k (validatePruneOptions k pruneOptions) =
   validatePruneOptions k pruneOptions"
  by (simp add: validatePruneOptions_fields [of k])

text \<open>
  Claim C7. \<open>validatePruneOptions\<close> has no error result, and it resolves the unset fields:
  a zero factor becomes 2.0, a zero minimum 100, a zero maximum 100000, a non-positive
  number of batches 1, a negative sleep time 10 ms, so that the resulting sleep time is
  never negative; an unset (zero) batch size becomes 1000, the least batch size
  \<^verbatim>\<open>pruneMinTxnBatchSize\<close> being positive; a batch size of at least \<^verbatim>\<open>pruneMinTxnBatchSize\<close>
  and every other field that is set stay as they are.
\<close>

theorem validatePruneOptions_defaults:
  "PruneFactor (validatePruneOptions k p) =
     (if f32_is_zero (PruneFactor p) then Fin 1 1 else PruneFactor p) \<and>
   MinNewTransactions (validatePruneOptions k p) =
     (if MinNewTransactions p = 0 then 100 else MinNewTransactions p) \<and>
   MaxNewTransactions (validatePruneOptions k p) =
     (if MaxNewTransactions p = 0 then 100000 else MaxNewTransactions p) \<and>
   MaxBatches (validatePruneOptions k p) =
     (if sint (MaxBatches p) \<le> 0 then 1 else MaxBatches p) \<and>
   BatchTransactionSleepTime (validatePruneOptions k p) =
     (if sint (BatchTransactionSleepTime p) < 0 then 10000000
      else BatchTransactionSleepTime p) \<and>
   0 \<le> sint (BatchTransactionSleepTime (validatePruneOptions k p)) \<and>
   (0 < sint (pruneMinTxnBatchSize k) \<longrightarrow> SmallBatchTransactionCount p = 0 \<longrightarrow>
      SmallBatchTransactionCount (validatePruneOptions k p) = 1000) \<and>
   (sint (pruneMinTxnBatchSize k) \<le> sint (SmallBatchTransactionCount p) \<longrightarrow>
      SmallBatchTransactionCount (validatePruneOptions k p) = SmallBatchTransactionCount p) \<and>
   MaxTime (validatePruneOptions k p) = MaxTime p \<and>
   MaxBatchTransactions (validatePruneOptions k p) = MaxBatchTransactions p"
  by (simp add: validatePruneOptions_fields [of k p])

theorem validatePruneOptions_defaults_witness:
  "validatePruneOptions
     \<lparr>pruneTxnBatchSize = 1000, pruneMinTxnBatchSize = 10, pruneMaxTxnBatchSize = 100000,
      maxBatchSleepTime = 1000000000\<rparr>
     \<lparr>PruneFactor = Fin 0 0, MinNewTransactions = 0, MaxNewTransactions = 0, MaxTime = 7,
      MaxBatchTransactions = 0, MaxBatches = 0, SmallBatchTransactionCount = 0,
      BatchTransactionSleepTime = - 1\<rparr> =
     \<lparr>PruneFactor = Fin 1 1, MinNewTransactions = 100, MaxNewTransactions = 100000, MaxTime = 7,
      MaxBatchTransactions = 0, MaxBatches = 1, SmallBatchTransactionCount = 1000,
      BatchTransactionSleepTime = 10000000\<rparr>"
  using validatePruneOptions_defaults
     [of "\<lparr>pruneTxnBatchSize = 1000, pruneMinTxnBatchSize = 10, pruneMaxTxnBatchSize = 100000,
      maxBatchSleepTime = 1000000000\<rparr>"
     "\<lparr>PruneFactor = Fin 0 0, MinNewTransactions = 0, MaxNewTransactions = 0, MaxTime = 7,
      MaxBatchTransactions = 0, MaxBatches = 0, SmallBatchTransactionCount = 0,
      BatchTransactionSleepTime = - 1\<rparr>"]
  by (cases "validatePruneOptions
     \<lparr>pruneTxnBatchSize = 1000, pruneMinTxnBatchSize = 10, pruneMaxTxnBatchSize = 100000,
      maxBatchSleepTime = 1000000000\<rparr>
     \<lparr>PruneFactor = Fin 0 0, MinNewTransactions = 0, MaxNewTransactions = 0, MaxTime = 7,
      MaxBatchTransactions = 0, MaxBatches = 0, SmallBatchTransactionCount = 0,
      BatchTransactionSleepTime = - 1\<rparr>") simp

subsection \<open>The decision\<close>

lemma bitlen_le: "a < 2 ^ n \<Longrightarrow> bitlen a \<le> int n"
proof (induction n arbitrary: a)
  case 0
  then show ?case by (simp add: bitlen.simps)
next
  case (Suc n)
  show ?case
  proof (cases "a \<le> 0")
    case True
    then show ?thesis by (simp add: bitlen.simps)
  next
    case False
    from Suc.prems have "a div 2 < 2 ^ n" by simp
    then have "bitlen (a div 2) \<le> int n" by (rule Suc.IH)
    with False show ?thesis by (subst bitlen.simps) simp
  qed
qed

text \<open>A number of at most 24 significant bits, with its exponent in range, is not rounded.\<close>

lemma f32_round_exact:
  assumes "\<bar>m\<bar> < 2 ^ 24" and "- 149 \<le> e" and "e \<le> 104" and "m \<noteq> 0"
  shows "f32_round m e = Fin m e"
proof -
  from assms(1) have "bitlen \<bar>m\<bar> \<le> 24"
    using bitlen_le [where n = 24 and a = "\<bar>m\<bar>"] by simp
  with assms show ?thesis by (simp add: f32_round_def Let_def)
qed

lemma f32_round_0: "f32_round 0 e = Fin 0 0"
  by (simp add: f32_round_def)

text \<open>
  Rounding at work: ties go to the even significand (\<open>2 ^ 24 + 1\<close> down, \<open>2 ^ 24 + 3\<close> up),
  half of the least subnormal number goes to zero, and the first number that is too large
  for a finite \<^verbatim>\<open>float32\<close> is \<open>2 ^ 128 - 2 ^ 103\<close>.
\<close>

lemma f32_round_examples:
  "f32_round 16777217 0 = Fin 8388608 1"
  "f32_round 16777219 0 = Fin 8388610 1"
  "f32_round 100000001 0 = Fin 12500000 3"
  "f32_round 1 (- 150) = Fin 0 (- 149)"
  "f32_round 3 (- 150) = Fin 2 (- 149)"
  "f32_round (2 ^ 24 - 1) 104 = Fin (2 ^ 24 - 1) 104"
  "f32_round (2 ^ 25 - 1) 103 = Infty False"
  "f32_round (- (2 ^ 25) + 1) 103 = Infty True"
  by code_simp+

lemma f32_of_int_exact:
  "\<bar>sint n\<bar> < 2 ^ 24 \<Longrightarrow> f32_of_int n = Fin (sint n) 0"
  using f32_round_exact [of "sint n" 0]
  by (cases "sint n = 0") (simp_all add: f32_of_int_def f32_round_0)

lemma f32_ge_scaled:
  "f32_ge (Fin b 0) (Fin (a * m) e) = f32_scaled_le m e a b"
  by (simp add: f32_scaled_le_def Let_def min_def)

lemma f32_grown_exact:
  assumes "\<bar>sint newCount\<bar> < 2 ^ 24" and "\<bar>sint oldCount\<bar> < 2 ^ 24"
    and "\<bar>sint oldCount * m\<bar> < 2 ^ 24" and "- 149 \<le> e" and "e \<le> 104"
  shows "f32_ge (f32_of_int newCount) (f32_mul (f32_of_int oldCount) (Fin m e))
         = exact_grown oldCount newCount (Fin m e)"
proof (cases "sint oldCount * m = 0")
  case True
  have "f32_mul (f32_of_int oldCount) (Fin m e) = f32_round (sint oldCount * m) e"
    using assms(2) by (simp add: f32_of_int_exact)
  also have "\<dots> = Fin 0 0"
    by (simp only: True f32_round_0)
  finally have prod: "f32_mul (f32_of_int oldCount) (Fin m e) = Fin 0 0" .
  have "f32_scaled_le m e (sint oldCount) (sint newCount) = (0 \<le> sint newCount)"
    using True by (auto simp add: f32_scaled_le_def zero_le_mult_iff)
  with prod assms(1) show ?thesis by (simp add: f32_of_int_exact)
next
  case False
  with assms have "f32_mul (f32_of_int oldCount) (Fin m e) = Fin (sint oldCount * m) e"
    by (simp add: f32_of_int_exact f32_round_exact)
  with assms(1) show ?thesis
    by (simp add: f32_of_int_exact f32_ge_scaled del: f32_ge.simps)
qed

lemma shouldPrune_cascade:
  "shouldPrune oldCount newCount pruneOptions =
     (if sint oldCount < 0 then (True, ''no pruning run found'')
      else if sint (newCount - oldCount) < sint (MinNewTransactions pruneOptions)
      then (False, ''not enough new transactions'')
      else if sint (MaxNewTransactions pruneOptions) < sint (newCount - oldCount)
      then (True, ''too many new transactions'')
      else if f32_ge (f32_of_int newCount)
                (f32_mul (f32_of_int oldCount) (PruneFactor pruneOptions))
      then (True, ''transactions have grown significantly'')
      else (False, ''transactions have not grown significantly''))"
  by (simp add: shouldPrune_def Let_def)

lemma shouldPrune_agrees:
  assumes "PruneFactor pruneOptions = Fin m e"
    and "\<bar>sint newCount\<bar> < 2 ^ 24" and "\<bar>sint oldCount\<bar> < 2 ^ 24"
    and "\<bar>sint oldCount * m\<bar> < 2 ^ 24" and "- 149 \<le> e" and "e \<le> 104"
  shows "shouldPrune oldCount newCount pruneOptions =
         shouldPrune_exact oldCount newCount pruneOptions"
  using f32_grown_exact [OF assms(2-6)] assms(1)
  by (simp add: shouldPrune_cascade shouldPrune_exact_def)

lemma shouldPrune_example_1150:
  "shouldPrune 1000 1150 exampleOptions = (False, ''transactions have not grown significantly'')"
  unfolding exampleOptions_def by code_simp

lemma shouldPrune_example_2100:
  "shouldPrune 1000 2100 exampleOptions = (True, ''transactions have grown significantly'')"
  unfolding exampleOptions_def by code_simp

lemma shouldPrune_example_101101:
  "shouldPrune 1000 101101 exampleOptions = (True, ''too many new transactions'')"
  unfolding exampleOptions_def by code_simp

text \<open>
  Claim C1, as the specification states it, with \<open>newCount \<ge> oldCount * PruneFactor\<close> read
  in exact arithmetic, fails: the program compares in \<^verbatim>\<open>float32\<close>. With the factor 2.0, a
  minimum of 100 and a maximum of \<open>10\<^sup>9\<close> new transactions, \<open>oldCount = 100000001\<close> and
  \<open>newCount = 200000001\<close>: \<^verbatim>\<open>float32(100000001)\<close> is 100000000, its double is 200000000,
  and \<^verbatim>\<open>float32(200000001)\<close> is 200000000 too, so the program prunes, while
  \<open>200000001 < 2 * 100000001\<close>.
\<close>

theorem shouldPrune_exact_counterexample:
  "shouldPrune 100000001 200000001 (exampleOptions\<lparr>MaxNewTransactions := 1000000000\<rparr>) =
     (True, ''transactions have grown significantly'') \<and>
   shouldPrune_exact 100000001 200000001 (exampleOptions\<lparr>MaxNewTransactions := 1000000000\<rparr>) =
     (False, ''transactions have not grown significantly'')"
  unfolding exampleOptions_def by code_simp

text \<open>
  Claim C1, amended. \<open>shouldPrune\<close> returns (true, no pruning run found) when
  \<open>oldCount < 0\<close>; otherwise (false, not enough new transactions) when the 64-bit
  difference \<open>newCount - oldCount\<close> is less than \<open>MinNewTransactions\<close>; otherwise (true,
  too many new transactions) when the difference is greater than \<open>MaxNewTransactions\<close>;
  otherwise (true, transactions have grown significantly) when
  \<^verbatim>\<open>float32(newCount) >= float32(oldCount) * PruneFactor\<close>, the two counts and the product
  each rounded to single precision; and (false, transactions have not grown significantly)
  in every remaining case. The comparison is the exact one whenever the factor is a finite
  \<open>m * 2 ^ e\<close> with \<open>-149 \<le> e \<le> 104\<close> and the two counts and \<open>oldCount * m\<close> are below
  \<open>2 ^ 24\<close> in absolute value. With the default options the decision is: false for
  \<open>(1000, 1150)\<close>, true for \<open>(1000, 2100)\<close>, true for \<open>(1000, 101101)\<close>.
\<close>

theorem shouldPrune_float32:
  "shouldPrune oldCount newCount pruneOptions =
     (if sint oldCount < 0 then (True, ''no pruning run found'')
      else if sint (newCount - oldCount) < sint (MinNewTransactions pruneOptions)
      then (False, ''not enough new transactions'')
      else if sint (MaxNewTransactions pruneOptions) < sint (newCount - oldCount)
      then (True, ''too many new transactions'')
      else if f32_ge (f32_of_int newCount)
                (f32_mul (f32_of_int oldCount) (PruneFactor pruneOptions))
      then (True, ''transactions have grown significantly'')
      else (False, ''transactions have not grown significantly'')) \<and>
   (PruneFactor pruneOptions = Fin m e \<and> - 149 \<le> e \<and> e \<le> 104 \<and>
    \<bar>sint newCount\<bar> < 2 ^ 24 \<and> \<bar>sint oldCount\<bar> < 2 ^ 24 \<and> \<bar>sint oldCount * m\<bar> < 2 ^ 24 \<longrightarrow>
      shouldPrune oldCount newCount pruneOptions =
      shouldPrune_exact oldCount newCount pruneOptions) \<and>
   shouldPrune 1000 1150 exampleOptions =
     (False, ''transactions have not grown significantly'') \<and>
   shouldPrune 1000 2100 exampleOptions =
     (True, ''transactions have grown significantly'') \<and>
   shouldPrune 1000 101101 exampleOptions = (True, ''too many new transactions'')"
  using shouldPrune_cascade [of oldCount newCount pruneOptions]
    shouldPrune_agrees [of pruneOptions m e newCount oldCount]
    shouldPrune_example_1150 shouldPrune_example_2100 shouldPrune_example_101101
  by blast

theorem shouldPrune_float32_witness:
  "shouldPrune 5000 9999 exampleOptions = shouldPrune_exact 5000 9999 exampleOptions \<and>
   shouldPrune_exact 5000 9999 exampleOptions =
     (False, ''transactions have not grown significantly'')"
proof
  have h: "PruneFactor exampleOptions = Fin 1 1 \<and> - 149 \<le> (1::int) \<and> (1::int) \<le> 104 \<and>
    \<bar>sint (9999::go_int)\<bar> < 2 ^ 24 \<and> \<bar>sint (5000::go_int)\<bar> < 2 ^ 24 \<and>
    \<bar>sint (5000::go_int) * 1\<bar> < 2 ^ 24"
    by (simp add: exampleOptions_def)
  show "shouldPrune 5000 9999 exampleOptions = shouldPrune_exact 5000 9999 exampleOptions"
    using shouldPrune_float32 [of 5000 9999 exampleOptions 1 1] h by blast
  show "shouldPrune_exact 5000 9999 exampleOptions =
     (False, ''transactions have not grown significantly'')"
    unfolding exampleOptions_def by code_simp
qed

subsection \<open>The statistics lookup\<close>

text \<open>
  Claim C5. \<open>getPruneLastTxnsCount\<close> does not fail on a broken pointer: when the pointer
  document \<^verbatim>\<open>last\<close> is not found, and when it is found but the snapshot it names is not,
  the result is \<open>-1\<close> with no error; an error is returned only when one of the two reads
  fails with an error other than not-found; and on the count \<open>-1\<close> the decision of
  \<open>shouldPrune\<close> is to prune.
\<close>

theorem getPruneLastTxnsCount_broken_pointer:
  "(FindId_One_M c (BString ''last'') = Inl ErrNotFound \<longrightarrow>
      getPruneLastTxnsCount c = (- 1, None)) \<and>
   (FindId_One_M c (BString ''last'') = Inr ptrDoc \<and>
    FindId_One_pruneStats c (case ptrDoc ''id'' of None \<Rightarrow> BNil | Some v \<Rightarrow> v)
      = Inl ErrNotFound \<longrightarrow>
      getPruneLastTxnsCount c = (- 1, None)) \<and>
   (snd (getPruneLastTxnsCount c) \<noteq> None \<longrightarrow>
      (\<exists>e. e \<noteq> ErrNotFound \<and>
           (FindId_One_M c (BString ''last'') = Inl e \<or>
            (\<exists>d. FindId_One_M c (BString ''last'') = Inr d \<and>
                 FindId_One_pruneStats c (case d ''id'' of None \<Rightarrow> BNil | Some v \<Rightarrow> v)
                   = Inl e)))) \<and>
   (fst (getPruneLastTxnsCount c) = - 1 \<longrightarrow>
      fst (shouldPrune (fst (getPruneLastTxnsCount c)) newCount pruneOptions))"
  by (auto simp add: getPruneLastTxnsCount_def shouldPrune_def split: sum.splits)

theorem getPruneLastTxnsCount_broken_pointer_witness:
  "getPruneLastTxnsCount
     \<lparr>FindId_One_M = (\<lambda>i. Inr [''id'' \<mapsto> BObjectId ''5f1d'']),
      FindId_One_pruneStats = (\<lambda>i. Inl ErrNotFound)\<rparr> = (- 1, None) \<and>
   getPruneLastTxnsCount
     \<lparr>FindId_One_M = (\<lambda>i. Inl ErrNotFound),
      FindId_One_pruneStats = (\<lambda>i. Inl (DriverError ''EOF''))\<rparr> = (- 1, None)"
  using getPruneLastTxnsCount_broken_pointer
     [of "\<lparr>FindId_One_M = (\<lambda>i. Inr [''id'' \<mapsto> BObjectId ''5f1d'']),
      FindId_One_pruneStats = (\<lambda>i. Inl ErrNotFound)\<rparr>" "[''id'' \<mapsto> BObjectId ''5f1d'']"]
    getPruneLastTxnsCount_broken_pointer
     [of "\<lparr>FindId_One_M = (\<lambda>i. Inl ErrNotFound),
      FindId_One_pruneStats = (\<lambda>i. Inl (DriverError ''EOF''))\<rparr>"]
  by simp

subsection \<open>Transaction tokens\<close>

lemma fromHexChar_Some: "(\<exists>x. fromHexChar c = Some x) \<longleftrightarrow> isHexDigit c"
  by (auto simp add: fromHexChar_def isHexDigit_def)

lemma fromHexChar_None: "fromHexChar c = None \<longleftrightarrow> \<not> isHexDigit c"
  using fromHexChar_Some [of c] by auto

lemma DecodeString_Some:
  "(\<exists>d. DecodeString s = Some d) \<longleftrightarrow> even (length s) \<and> hex_digits s"
proof (induction s rule: DecodeString.induct)
  case 1
  then show ?case by (simp add: hex_digits_def)
next
  case (2 c)
  then show ?case by simp
next
  case (3 a b rest)
  show ?case
  proof (cases "fromHexChar a")
    case None
    then have "\<not> isHexDigit a" by (simp add: fromHexChar_None)
    with None show ?thesis by (simp add: hex_digits_def)
  next
    case A: (Some x)
    then have ha: "isHexDigit a" using fromHexChar_Some [of a] by blast
    show ?thesis
    proof (cases "fromHexChar b")
      case None
      then have "\<not> isHexDigit b" by (simp add: fromHexChar_None)
      with A None show ?thesis by (simp add: hex_digits_def)
    next
      case B: (Some y)
      then have hb: "isHexDigit b" using fromHexChar_Some [of b] by blast
      have "(\<exists>d. DecodeString (a # b # rest) = Some d) \<longleftrightarrow> (\<exists>d. DecodeString rest = Some d)"
        using A B by (cases "DecodeString rest") simp_all
      also have "\<dots> \<longleftrightarrow> even (length rest) \<and> hex_digits rest"
        using A B by (rule "3.IH")
      also have "\<dots> \<longleftrightarrow> even (length (a # b # rest)) \<and> hex_digits (a # b # rest)"
        using ha hb by (simp add: hex_digits_def)
      finally show ?thesis .
    qed
  qed
qed

lemma DecodeString_length: "DecodeString s = Some d \<Longrightarrow> 2 * length d = length s"
  by (induction s arbitrary: d rule: DecodeString.induct) (auto split: option.splits)

lemma ObjectIdHex_24:
  assumes "length s = 24"
  shows "hex_digits s \<Longrightarrow> \<exists>oid. ObjectIdHex s = Value oid \<and> DecodeString s = Some oid \<and> length oid = 12"
    and "\<not> hex_digits s \<Longrightarrow> ObjectIdHex s = Panic ''invalid input to ObjectIdHex''"
proof -
  assume h: "hex_digits s"
  with assms obtain d where d: "DecodeString s = Some d"
    using DecodeString_Some [of s] by auto
  then have "length d = 12" using DecodeString_length [OF d] assms by simp
  with d show "\<exists>oid. ObjectIdHex s = Value oid \<and> DecodeString s = Some oid \<and> length oid = 12"
    by (simp add: ObjectIdHex_def)
next
  assume "\<not> hex_digits s"
  then have "DecodeString s = None" using DecodeString_Some [of s] by auto
  then show "ObjectIdHex s = Panic ''invalid input to ObjectIdHex''"
    by (simp add: ObjectIdHex_def)
qed

text \<open>
  Claim C10, as stated, says that every token of at least 24 bytes yields the identifier
  made of its first 24 bytes. It does not when these are not hexadecimal digits: for the
  token of 24 letters \<^verbatim>\<open>z\<close> followed by \<^verbatim>\<open>_1\<close> the slice is in range and
  \<^verbatim>\<open>bson.ObjectIdHex\<close> panics.
\<close>

theorem txnTokenToId_counterexample:
  "24 \<le> length ''zzzzzzzzzzzzzzzzzzzzzzzz_1'' \<and>
   txnTokenToId ''zzzzzzzzzzzzzzzzzzzzzzzz_1'' = Panic ''invalid input to ObjectIdHex''"
  by (simp add: txnTokenToId_def ObjectIdHex_def fromHexChar_def)

text \<open>
  Claim C10, amended. For a token of at least 24 bytes \<open>txnTokenToId\<close> is
  \<^verbatim>\<open>bson.ObjectIdHex\<close> of the first 24 bytes of the token, whatever follows them: when
  these 24 bytes are hexadecimal digits it returns the 12-byte identifier they encode, and
  otherwise it panics in \<^verbatim>\<open>bson.ObjectIdHex\<close>. For a shorter token the slice
  \<^verbatim>\<open>token[:24]\<close> is out of range and the function panics.
\<close>

theorem txnTokenToId_hex:
  "(24 \<le> length token \<longrightarrow>
      txnTokenToId token = ObjectIdHex (take 24 token) \<and>
      txnTokenToId (take 24 token @ rest) = txnTokenToId token) \<and>
   (24 \<le> length token \<and> hex_digits (take 24 token) \<longrightarrow>
      (\<exists>oid. txnTokenToId token = Value oid \<and> DecodeString (take 24 token) = Some oid \<and>
             length oid = 12)) \<and>
   (24 \<le> length token \<and> \<not> hex_digits (take 24 token) \<longrightarrow>
      txnTokenToId token = Panic ''invalid input to ObjectIdHex'') \<and>
   (length token < 24 \<longrightarrow> txnTokenToId token = Panic ''slice bounds out of range'')"
proof (intro conjI impI)
  assume "24 \<le> length token"
  then show "txnTokenToId token = ObjectIdHex (take 24 token)"
    and "txnTokenToId (take 24 token @ rest) = txnTokenToId token"
    by (simp_all add: txnTokenToId_def)
next
  assume a: "24 \<le> length token \<and> hex_digits (take 24 token)"
  then have l: "length (take 24 token) = 24" by simp
  from ObjectIdHex_24(1) [OF l] a
  show "\<exists>oid. txnTokenToId token = Value oid \<and> DecodeString (take 24 token) = Some oid \<and>
             length oid = 12"
    by (simp add: txnTokenToId_def)
next
  assume a: "24 \<le> length token \<and> \<not> hex_digits (take 24 token)"
  then have l: "length (take 24 token) = 24" by simp
  from ObjectIdHex_24(2) [OF l] a
  show "txnTokenToId token = Panic ''invalid input to ObjectIdHex''"
    by (simp add: txnTokenToId_def)
next
  assume "length token < 24"
  then show "txnTokenToId token = Panic ''slice bounds out of range''"
    by (simp add: txnTokenToId_def)
qed

theorem txnTokenToId_hex_witness:
  "txnTokenToId ''0123456789abcdef01234567_9f3c'' =
     Value [0x01, 0x23, 0x45, 0x67, 0x89, 0xab, 0xcd, 0xef, 0x01, 0x23, 0x45, 0x67] \<and>
   txnTokenToId (''0123456789abcdef01234567'' @ ''_other'') =
     txnTokenToId ''0123456789abcdef01234567_9f3c'' \<and>
   txnTokenToId ''0123456789abcdefghijklmn_9f3c'' = Panic ''invalid input to ObjectIdHex'' \<and>
   txnTokenToId ''0123456789abcdef'' = Panic ''slice bounds out of range''"
proof -
  have d: "DecodeString ''0123456789abcdef01234567'' =
      Some [0x01, 0x23, 0x45, 0x67, 0x89, 0xab, 0xcd, 0xef, 0x01, 0x23, 0x45, 0x67]"
    by (simp add: fromHexChar_def)
  have h: "hex_digits ''0123456789abcdef01234567''"
    and n: "\<not> hex_digits ''0123456789abcdefghijklmn''"
    by (simp_all add: hex_digits_def isHexDigit_def)
  have t1: "take 24 ''0123456789abcdef01234567_9f3c'' = ''0123456789abcdef01234567''"
    and t2: "take 24 ''0123456789abcdefghijklmn_9f3c'' = ''0123456789abcdefghijklmn''"
    by simp_all
  have l1: "24 \<le> length ''0123456789abcdef01234567_9f3c''"
    and l2: "24 \<le> length ''0123456789abcdefghijklmn_9f3c''"
    and l3: "length ''0123456789abcdef'' < 24"
    by simp_all
  note T1 = txnTokenToId_hex [of "''0123456789abcdef01234567_9f3c''" "''_other''", unfolded t1]
  note T2 = txnTokenToId_hex [of "''0123456789abcdefghijklmn_9f3c''" "[]", unfolded t2]
  note T3 = txnTokenToId_hex [of "''0123456789abcdef''" "[]"]
  from T1 l1 h obtain oid where
    "txnTokenToId ''0123456789abcdef01234567_9f3c'' = Value oid"
    "DecodeString ''0123456789abcdef01234567'' = Some oid"
    by blast
  with d have a: "txnTokenToId ''0123456789abcdef01234567_9f3c'' =
     Value [0x01, 0x23, 0x45, 0x67, 0x89, 0xab, 0xcd, 0xef, 0x01, 0x23, 0x45, 0x67]"
    by simp
  from T1 l1 have b: "txnTokenToId (''0123456789abcdef01234567'' @ ''_other'') =
     txnTokenToId ''0123456789abcdef01234567_9f3c''"
    by blast
  from T2 l2 n have c:
    "txnTokenToId ''0123456789abcdefghijklmn_9f3c'' = Panic ''invalid input to ObjectIdHex''"
    by blast
  from T3 l3 have e: "txnTokenToId ''0123456789abcdef'' = Panic ''slice bounds out of range''"
    by blast
  from a b c e show ?thesis by blast
qed

subsection \<open>The orchestrator\<close>

lemma validate_error_iff: "snd (validate k args) \<noteq> None \<longleftrightarrow> invalidArgs k args"
  by (simp add: validate_def invalidArgs_def effectiveBatchSize_def Let_def)

lemma validate_Multithreaded: "Multithreaded (fst (validate k args)) = Multithreaded args"
  by (simp add: validate_def Let_def)

lemma CleanAndPrune_invalid:
  "snd (validate k args) = Some err \<Longrightarrow>
   CleanAndPrune k Prune CombineStats rf args = ((zeroCleanupStats, Some err), [])"
  by (cases "validate k args") (simp add: CleanAndPrune_def)

lemma CleanAndPrune_valid_events:
  "validate k args = (a, None) \<Longrightarrow>
   snd (CleanAndPrune k Prune CombineStats rf args) =
     StartReporting # (if Multithreaded a then [Sweep (sweepArgs a True)] else []) @
       [Sweep (sweepArgs a False)]"
  by (simp add: CleanAndPrune_def Let_def case_prod_beta)

lemma CleanAndPrune_error_zero:
  "snd (fst (CleanAndPrune k Prune CombineStats rf args)) \<noteq> None \<Longrightarrow>
   fst (fst (CleanAndPrune k Prune CombineStats rf args)) = zeroCleanupStats"
  by (cases "validate k args")
     (auto simp add: CleanAndPrune_def Let_def case_prod_beta split: option.splits if_splits)

text \<open>
  Claim C8. \<open>CleanAndPrune\<close> returns the error of \<open>validate\<close>, with the zero statistics
  and before it sets anything going (no reporter, no sweep), exactly when the collection is
  \<^verbatim>\<open>nil\<close>, or the sleep time is outside \<open>[0, maxBatchSleepTime]\<close>, or the batch size,
  the default standing in for zero, is outside \<open>[pruneMinTxnBatchSize,
  pruneMaxTxnBatchSize]\<close>. For all other arguments \<open>validate\<close> returns no error, and the
  reporter and the forward sweep are started.
\<close>

theorem CleanAndPrune_configuration_error:
  "(invalidArgs k args \<longrightarrow>
      (\<exists>err. snd (validate k args) = Some err \<and>
             CleanAndPrune k Prune CombineStats reverseFirst args =
               ((zeroCleanupStats, Some err), []))) \<and>
   (\<not> invalidArgs k args \<longrightarrow>
      snd (validate k args) = None \<and>
      snd (CleanAndPrune k Prune CombineStats reverseFirst args) =
        StartReporting #
          (if Multithreaded args then [Sweep (sweepArgs (fst (validate k args)) True)] else []) @
          [Sweep (sweepArgs (fst (validate k args)) False)])"
proof (intro conjI impI)
  assume "invalidArgs k args"
  then obtain err where e: "snd (validate k args) = Some err"
    using validate_error_iff [of k args] by auto
  then have "CleanAndPrune k Prune CombineStats reverseFirst args =
               ((zeroCleanupStats, Some err), [])"
    by (rule CleanAndPrune_invalid)
  with e show "\<exists>err. snd (validate k args) = Some err \<and>
             CleanAndPrune k Prune CombineStats reverseFirst args =
               ((zeroCleanupStats, Some err), [])" by blast
next
  assume "\<not> invalidArgs k args"
  then show n: "snd (validate k args) = None"
    using validate_error_iff [of k args] by simp
  then have "validate k args = (fst (validate k args), None)"
    by (metis prod.collapse)
  then show "snd (CleanAndPrune k Prune CombineStats reverseFirst args) =
        StartReporting #
          (if Multithreaded args then [Sweep (sweepArgs (fst (validate k args)) True)] else []) @
          [Sweep (sweepArgs (fst (validate k args)) False)]"
    using CleanAndPrune_valid_events
      [of k args "fst (validate k args)" Prune CombineStats reverseFirst]
    by (simp add: validate_Multithreaded)
qed

theorem CleanAndPrune_configuration_error_witness:
  "CleanAndPrune exampleConsts (\<lambda>a c. (zeroPrunerStats, None)) (\<lambda>a b. b) False
      \<lparr>Txns = Some (0::nat), TxnsCount = 0, ArgsMaxTime = 0, MaxTransactionsToProcess = 0,
       Multithreaded = False, TxnBatchSize = 5, TxnBatchSleepTime = 0\<rparr> =
     ((zeroCleanupStats,
       Some (Errorf ''TxnBatchSize %d too small, must be between %d and %d''
               [ArgInt 5, ArgInt 10, ArgInt 100000])), []) \<and>
   snd (CleanAndPrune exampleConsts (\<lambda>a c. (zeroPrunerStats, None)) (\<lambda>a b. b) False
      \<lparr>Txns = Some (0::nat), TxnsCount = 0, ArgsMaxTime = 0, MaxTransactionsToProcess = 0,
       Multithreaded = False, TxnBatchSize = 0, TxnBatchSleepTime = 0\<rparr>) =
     [StartReporting,
      Sweep \<lparr>IncMaxTime = 0, ReverseOrder = False, IncTxnBatchSize = 1000,
             IncTxnBatchSleepTime = 0\<rparr>]"
  using CleanAndPrune_configuration_error [of exampleConsts
      "\<lparr>Txns = Some (0::nat), TxnsCount = 0, ArgsMaxTime = 0, MaxTransactionsToProcess = 0,
       Multithreaded = False, TxnBatchSize = 5, TxnBatchSleepTime = 0\<rparr>"
      "\<lambda>a c. (zeroPrunerStats, None)" "\<lambda>a b. b" False]
    CleanAndPrune_configuration_error [of exampleConsts
      "\<lparr>Txns = Some (0::nat), TxnsCount = 0, ArgsMaxTime = 0, MaxTransactionsToProcess = 0,
       Multithreaded = False, TxnBatchSize = 0, TxnBatchSleepTime = 0\<rparr>"
      "\<lambda>a c. (zeroPrunerStats, None)" "\<lambda>a b. b" False]
  by (simp add: invalidArgs_def effectiveBatchSize_def validate_def sweepArgs_def
      exampleConsts_def)

text \<open>
  Claim C9. Whenever \<open>CleanAndPrune\<close> returns an error, from the validation or from a
  sweep, in either order of completion of the two sweeps, the statistics it returns are the
  zero value: the five counts are 0 and \<open>ShouldRetry\<close> is false, whatever the sweeps did.
\<close>

theorem CleanAndPrune_error_zero_stats:
  "snd (fst (CleanAndPrune k Prune CombineStats reverseFirst args)) \<noteq> None \<longrightarrow>
     fst (fst (CleanAndPrune k Prune CombineStats reverseFirst args)) = zeroCleanupStats \<and>
     CollectionsInspected (fst (fst (CleanAndPrune k Prune CombineStats reverseFirst args))) = 0 \<and>
     DocsInspected (fst (fst (CleanAndPrune k Prune CombineStats reverseFirst args))) = 0 \<and>
     DocsCleaned (fst (fst (CleanAndPrune k Prune CombineStats reverseFirst args))) = 0 \<and>
     StashDocumentsRemoved (fst (fst (CleanAndPrune k Prune CombineStats reverseFirst args))) = 0 \<and>
     TransactionsRemoved (fst (fst (CleanAndPrune k Prune CombineStats reverseFirst args))) = 0 \<and>
     \<not> ShouldRetry (fst (fst (CleanAndPrune k Prune CombineStats reverseFirst args)))"
  using CleanAndPrune_error_zero [of k Prune CombineStats reverseFirst args]
  by (auto simp add: zeroCleanupStats_def)

theorem CleanAndPrune_error_zero_stats_witness:
  "fst (CleanAndPrune exampleConsts
      (\<lambda>a c. (\<lparr>TxnsRemoved = 40, DocQueuesCleaned = 12, StashDocsRemoved = 3,
                CollectionQueries = 9, DocCacheMisses = 20, DocCacheHits = 5\<rparr>,
               if ReverseOrder a then Some (DriverError ''EOF'') else None))
      (\<lambda>a b. b) True
      \<lparr>Txns = Some (0::nat), TxnsCount = 0, ArgsMaxTime = 0, MaxTransactionsToProcess = 0,
       Multithreaded = True, TxnBatchSize = 0, TxnBatchSleepTime = 0\<rparr>) =
     (zeroCleanupStats, Some (Traced (Traced (DriverError ''EOF''))))"
  using CleanAndPrune_error_zero_stats [of exampleConsts
      "(\<lambda>a c. (\<lparr>TxnsRemoved = 40, DocQueuesCleaned = 12, StashDocsRemoved = 3,
                CollectionQueries = 9, DocCacheMisses = 20, DocCacheHits = 5\<rparr>,
               if ReverseOrder a then Some (DriverError ''EOF'') else None))"
      "(\<lambda>a b. b)" True
      "\<lparr>Txns = Some (0::nat), TxnsCount = 0, ArgsMaxTime = 0, MaxTransactionsToProcess = 0,
       Multithreaded = True, TxnBatchSize = 0, TxnBatchSleepTime = 0\<rparr>"]
  by (simp add: CleanAndPrune_def validate_def prune_closure_def sweepArgs_def
      exampleConsts_def)

subsection \<open>The removers\<close>

text \<open>A flush with nothing queued sends no request and returns \<^verbatim>\<open>nil\<close>.\<close>

lemma batchRemover_Flush_empty:
  "queue r = [] \<Longrightarrow> batchRemover_Flush RemoveAll r = Value (r, None)"
  by (simp add: batchRemover_Flush_def)

lemma bulkRemover_Flush_empty:
  "sint (chunkSize b) < 1 \<Longrightarrow> bulkRemover_Flush Run b = Value (b, None)"
  by (simp add: bulkRemover_Flush_def)

text \<open>
  Not-found is no error: for the bulk remover whatever the result pointer is, for the batch
  remover when the driver hands back a result.
\<close>

lemma bulkRemover_Flush_not_found:
  "1 \<le> sint (chunkSize b) \<Longrightarrow> Run (bulk_coll b) (chunk b) = (res, Some ErrNotFound) \<Longrightarrow>
   \<exists>b'. bulkRemover_Flush Run b = Value (b', None) \<and> chunk b' = [] \<and> chunkSize b' = 0 \<and>
        bulk_coll b' = bulk_coll b @ [chunk b]"
  by (cases res) (simp_all add: bulkRemover_Flush_def newChunk_def)

lemma batchRemover_Flush_not_found:
  "queue r \<noteq> [] \<Longrightarrow> RemoveAll (coll r) (queue r) = (Some info, Some ErrNotFound) \<Longrightarrow>
   batchRemover_Flush RemoveAll r =
     Value (r\<lparr>coll := coll r @ [queue r], removed := removed r + Removed info, queue := []\<rparr>,
            None)"
  by (cases "queue r") (simp_all add: batchRemover_Flush_def)

lemma batchRemover_Flush_nil_result:
  "queue r \<noteq> [] \<Longrightarrow> RemoveAll (coll r) (queue r) = (None, Some ErrNotFound) \<Longrightarrow>
   batchRemover_Flush RemoveAll r = Panic ''nil pointer dereference''"
  by (cases "queue r") (simp_all add: batchRemover_Flush_def)

text \<open>
  Claim C2 says that a flush of either remover returns \<^verbatim>\<open>nil\<close> when the delete reports
  not-found. The batch remover reads \<^verbatim>\<open>result.Removed\<close> in that case without looking at
  the pointer: when \<^verbatim>\<open>RemoveAll\<close> answers \<^verbatim>\<open>(nil, mgo.ErrNotFound)\<close> for a queue of one
  identifier, \<open>batchRemover_Flush\<close> panics. The bulk remover tests \<^verbatim>\<open>result != nil\<close>
  first and, on the same answer, returns \<^verbatim>\<open>nil\<close> with an empty chunk.
\<close>

theorem batchRemover_Flush_not_found_panics:
  "batchRemover_Flush (\<lambda>log req. (None, Some ErrNotFound))
     \<lparr>coll = [], queue = [''5f1d''], removed = 0\<rparr> = Panic ''nil pointer dereference'' \<and>
   bulkRemover_Flush (\<lambda>log req. (None, Some ErrNotFound))
     \<lparr>bulk_coll = [], chunk = [''5f1d''], chunkSize = 1, bulk_removed = 0\<rparr> =
     Value (\<lparr>bulk_coll = [[''5f1d'']], chunk = [], chunkSize = 0, bulk_removed = 0\<rparr>, None)"
  by (simp add: batchRemover_Flush_def bulkRemover_Flush_def newChunk_def)

lemma batchRemover_Remove_bound:
  "batchRemover_Remove RemoveAll r i = Value (r', None) \<Longrightarrow> length (queue r') < maxBulkOps"
  by (auto simp add: batchRemover_Remove_def batchRemover_Flush_def Let_def maxBulkOps_def
      split: if_splits prod.splits option.splits)

lemma bulkRemover_Remove_bound:
  "bulkRemover_Remove Run b i = Value (b', None) \<Longrightarrow> sint (chunkSize b') < 1000"
  by (auto simp add: bulkRemover_Remove_def bulkRemover_Flush_def Let_def newChunk_def
      split: if_splits prod.splits option.splits)

lemma batchRemover_Remove_batch_inv:
  "batchRemover_Remove RemoveAll r i = Value (r', None) \<Longrightarrow> batch_inv r \<Longrightarrow> batch_inv r'"
  by (auto simp add: batchRemover_Remove_def batchRemover_Flush_def Let_def maxBulkOps_def
      batch_inv_def split: if_splits prod.splits option.splits)

lemma batchRemover_Removes_batch_inv:
  "batchRemover_Removes RemoveAll r ids = Some r' \<Longrightarrow> batch_inv r \<Longrightarrow> batch_inv r'"
proof (induction ids arbitrary: r)
  case Nil
  then show ?case by simp
next
  case (Cons i ids)
  then obtain r1 where step: "batchRemover_Remove RemoveAll r i = Value (r1, None)"
    and rest: "batchRemover_Removes RemoveAll r1 ids = Some r'"
    by (auto split: go_result.splits option.splits prod.splits)
  from step Cons.prems(2) have "batch_inv r1" by (rule batchRemover_Remove_batch_inv)
  with rest show ?case by (rule Cons.IH)
qed

text \<open>The counter does not wrap while it stays below the maximum.\<close>

lemma sint_succ:
  "sint (c :: go_int) < 1000 \<Longrightarrow> - 1 \<le> sint c \<Longrightarrow> sint (c + 1) = sint c + 1"
  by (simp add: sint_word_ariths signed_take_bit_int_eq_self)

lemma bulkRemover_Remove_bulk_inv:
  assumes "bulkRemover_Remove Run b i = Value (b', None)" and "bulk_inv b"
  shows "bulk_inv b'"
proof -
  from assms(2) have c: "sint (chunkSize b) = int (length (chunk b))"
    and l: "length (chunk b) < 1000"
    and h: "list_all (\<lambda>q. length q \<le> 1000) (bulk_coll b)"
    by (simp_all add: bulk_inv_def)
  from c l have s: "sint (chunkSize b + 1) = int (length (chunk b)) + 1"
    by (simp add: sint_succ)
  show ?thesis
  proof (cases "1000 \<le> sint (chunkSize b + 1)")
    case False
    with assms(1) have "b' = b\<lparr>chunk := chunk b @ [i], chunkSize := chunkSize b + 1\<rparr>"
      by (simp add: bulkRemover_Remove_def Let_def)
    with s False h show ?thesis by (simp add: bulk_inv_def)
  next
    case True
    with s l have len: "length (chunk b @ [i]) = 1000" by simp
    from True assms(1) have
      "bulkRemover_Flush Run (b\<lparr>chunk := chunk b @ [i], chunkSize := chunkSize b + 1\<rparr>)
         = Value (b', None)"
      by (simp add: bulkRemover_Remove_def Let_def)
    with True len h show ?thesis
      by (auto simp add: bulkRemover_Flush_def Let_def newChunk_def bulk_inv_def
          split: if_splits prod.splits option.splits)
  qed
qed

lemma bulkRemover_Removes_bulk_inv:
  "bulkRemover_Removes Run b ids = Some b' \<Longrightarrow> bulk_inv b \<Longrightarrow> bulk_inv b'"
proof (induction ids arbitrary: b)
  case Nil
  then show ?case by simp
next
  case (Cons i ids)
  then obtain b1 where step: "bulkRemover_Remove Run b i = Value (b1, None)"
    and rest: "bulkRemover_Removes Run b1 ids = Some b'"
    by (auto split: go_result.splits option.splits prod.splits)
  from step Cons.prems(2) have "bulk_inv b1" by (rule bulkRemover_Remove_bulk_inv)
  with rest show ?case by (rule Cons.IH)
qed

text \<open>
  Claim C3. After a \<^verbatim>\<open>Remove\<close> that returns \<^verbatim>\<open>nil\<close>, the queue of a batch remover and
  the chunk counter of a bulk remover are below \<open>maxBulkOps\<close> (1000), whatever the remover
  was before. And after any sequence of \<^verbatim>\<open>Remove\<close> calls on a new remover, each of which
  returns \<^verbatim>\<open>nil\<close>, no request sent to the collection covers more than \<open>maxBulkOps\<close>
  identifiers.
\<close>

theorem Remove_never_exceeds_maxBulkOps:
  "(batchRemover_Remove RemoveAll r ident = Value (r', None) \<longrightarrow>
      length (queue r') < maxBulkOps) \<and>
   (bulkRemover_Remove Run b ident = Value (b', None) \<longrightarrow> sint (chunkSize b') < 1000) \<and>
   (batchRemover_Removes RemoveAll (newBatchRemover []) ids = Some r'' \<longrightarrow>
      length (queue r'') < maxBulkOps \<and> (\<forall>q \<in> set (coll r''). length q \<le> maxBulkOps)) \<and>
   (bulkRemover_Removes Run (newBulkRemover []) ids = Some b'' \<longrightarrow>
      sint (chunkSize b'') < 1000 \<and> length (chunk b'') < 1000 \<and>
      (\<forall>q \<in> set (bulk_coll b''). length q \<le> 1000))"
proof (intro conjI impI)
  assume "batchRemover_Remove RemoveAll r ident = Value (r', None)"
  then show "length (queue r') < maxBulkOps" by (rule batchRemover_Remove_bound)
next
  assume "bulkRemover_Remove Run b ident = Value (b', None)"
  then show "sint (chunkSize b') < 1000" by (rule bulkRemover_Remove_bound)
next
  assume a: "batchRemover_Removes RemoveAll (newBatchRemover []) ids = Some r''"
  have "batch_inv (newBatchRemover ([] :: 'a list list))"
    by (simp add: batch_inv_def newBatchRemover_def maxBulkOps_def)
  with a have i: "batch_inv r''" by (rule batchRemover_Removes_batch_inv)
  then show "length (queue r'') < maxBulkOps" by (simp add: batch_inv_def)
  from i show "\<forall>q \<in> set (coll r''). length q \<le> maxBulkOps"
    by (simp add: batch_inv_def list_all_iff)
next
  assume a: "bulkRemover_Removes Run (newBulkRemover []) ids = Some b''"
  have "bulk_inv (newBulkRemover ([] :: 'b list list))"
    by (simp add: bulk_inv_def newBulkRemover_def newChunk_def)
  with a have i: "bulk_inv b''" by (rule bulkRemover_Removes_bulk_inv)
  then show "sint (chunkSize b'') < 1000" and "length (chunk b'') < 1000"
    by (simp_all add: bulk_inv_def)
  from i show "\<forall>q \<in> set (bulk_coll b''). length q \<le> 1000"
    by (simp add: bulk_inv_def list_all_iff)
qed

theorem Remove_never_exceeds_maxBulkOps_witness:
  "batchRemover_Remove (\<lambda>log req. (Some \<lparr>Removed = 1000\<rparr>, None))
       \<lparr>coll = [], queue = replicate 999 (7::nat), removed = 0\<rparr> 7 =
     Value (\<lparr>coll = [replicate 999 7 @ [7]], queue = [], removed = 1000\<rparr>, None) \<and>
   length (queue \<lparr>coll = [replicate 999 (7::nat) @ [7]], queue = [], removed = 1000\<rparr>)
     < maxBulkOps \<and>
   bulkRemover_Remove (\<lambda>log req. (Some \<lparr>Matched = 1000\<rparr>, None))
       \<lparr>bulk_coll = [], chunk = replicate 999 (7::nat), chunkSize = 999, bulk_removed = 0\<rparr> 7 =
     Value (\<lparr>bulk_coll = [replicate 999 7 @ [7]], chunk = [], chunkSize = 0,
             bulk_removed = 1000\<rparr>, None) \<and>
   batchRemover_Removes (\<lambda>log req. (Some \<lparr>Removed = 1\<rparr>, None)) (newBatchRemover [])
       [1, 2, 3 :: nat] = Some \<lparr>coll = [], queue = [1, 2, 3], removed = 0\<rparr> \<and>
   bulkRemover_Removes (\<lambda>log req. (Some \<lparr>Matched = 1\<rparr>, None)) (newBulkRemover [])
       [1, 2, 3 :: nat] =
     Some \<lparr>bulk_coll = [], chunk = [1, 2, 3], chunkSize = 3, bulk_removed = 0\<rparr>"
proof -
  have e1: "batchRemover_Remove (\<lambda>log req. (Some \<lparr>Removed = 1000\<rparr>, None))
       \<lparr>coll = [], queue = replicate 999 (7::nat), removed = 0\<rparr> 7 =
     Value (\<lparr>coll = [replicate 999 7 @ [7]], queue = [], removed = 1000\<rparr>, None)"
    by (simp add: batchRemover_Remove_def batchRemover_Flush_def maxBulkOps_def)
  have e2: "bulkRemover_Remove (\<lambda>log req. (Some \<lparr>Matched = 1000\<rparr>, None))
       \<lparr>bulk_coll = [], chunk = replicate 999 (7::nat), chunkSize = 999, bulk_removed = 0\<rparr> 7 =
     Value (\<lparr>bulk_coll = [replicate 999 7 @ [7]], chunk = [], chunkSize = 0,
             bulk_removed = 1000\<rparr>, None)"
    by (simp add: bulkRemover_Remove_def bulkRemover_Flush_def newChunk_def)
  have e3: "batchRemover_Removes (\<lambda>log req. (Some \<lparr>Removed = 1\<rparr>, None)) (newBatchRemover [])
       [1, 2, 3 :: nat] = Some \<lparr>coll = [], queue = [1, 2, 3], removed = 0\<rparr>"
    by (simp add: batchRemover_Remove_def newBatchRemover_def maxBulkOps_def)
  have e4: "bulkRemover_Removes (\<lambda>log req. (Some \<lparr>Matched = 1\<rparr>, None)) (newBulkRemover [])
       [1, 2, 3 :: nat] =
     Some \<lparr>bulk_coll = [], chunk = [1, 2, 3], chunkSize = 3, bulk_removed = 0\<rparr>"
    by (simp add: bulkRemover_Remove_def newBulkRemover_def newChunk_def)
  from Remove_never_exceeds_maxBulkOps
    [of "\<lambda>log req. (Some \<lparr>Removed = 1000\<rparr>, None)"
        "\<lparr>coll = [], queue = replicate 999 (7::nat), removed = 0\<rparr>" 7
        "\<lparr>coll = [replicate 999 7 @ [7]], queue = [], removed = 1000\<rparr>"
        "\<lambda>log req. (Some \<lparr>Matched = 1000\<rparr>, None)"
        "\<lparr>bulk_coll = [], chunk = replicate 999 (7::nat), chunkSize = 999, bulk_removed = 0\<rparr>"
        "\<lparr>bulk_coll = [replicate 999 7 @ [7]], chunk = [], chunkSize = 0, bulk_removed = 1000\<rparr>"]
    e1
  have "length (queue \<lparr>coll = [replicate 999 (7::nat) @ [7]], queue = [], removed = 1000\<rparr>)
     < maxBulkOps"
    by blast
  with e1 e2 e3 e4 show ?thesis by blast
qed

end
